theory Spec2Isabelle
  imports Main
begin

section \<open>Python strings\<close>

text \<open>
  A Python \<^verbatim>\<open>str\<close> is a sequence of Unicode code points; slicing, \<^verbatim>\<open>len\<close>,
  \<^verbatim>\<open>split\<close> and \<^verbatim>\<open>strip\<close> all count code points. A string is therefore a list of
  code points (natural numbers), and \<open>py\<close> reads an ASCII literal of the source.
\<close>

type_synonym pystr = "nat list"

definition py :: "string \<Rightarrow> pystr" where
  "py s = map of_char s"

definition NL :: nat where
  "NL = 10"

text \<open>
  The character tables of the interpreter (\<^verbatim>\<open>str.isspace\<close>, the \<^verbatim>\<open>re\<close> module's
  categories and its case-insensitive comparison) are fixed on ASCII and are a parameter
  beyond it: every result below holds whatever the tables say of a code point from 128 on.
  \<open>uc_ci_match u x c\<close> says that the non-ASCII code point \<open>x\<close> matches the pattern
  character \<open>c\<close> under \<^verbatim>\<open>re.IGNORECASE\<close>.
\<close>

record ucd =
  uc_isspace :: "nat \<Rightarrow> bool"
  uc_isdecimal :: "nat \<Rightarrow> bool"
  uc_isalnum :: "nat \<Rightarrow> bool"
  uc_ci_match :: "nat \<Rightarrow> nat \<Rightarrow> bool"

definition ascii_only :: ucd where
  "ascii_only = \<lparr>uc_isspace = (\<lambda>c. False), uc_isdecimal = (\<lambda>c. False),
     uc_isalnum = (\<lambda>c. False), uc_ci_match = (\<lambda>x c. False)\<rparr>"

definition isspace :: "ucd \<Rightarrow> nat \<Rightarrow> bool" where
  "isspace u c =
     (if c < 128 then (9 \<le> c \<and> c \<le> 13) \<or> (28 \<le> c \<and> c \<le> 32) else uc_isspace u c)"

definition isdecimal :: "ucd \<Rightarrow> nat \<Rightarrow> bool" where
  "isdecimal u c = (if c < 128 then 48 \<le> c \<and> c \<le> 57 else uc_isdecimal u c)"

definition isalnum :: "ucd \<Rightarrow> nat \<Rightarrow> bool" where
  "isalnum u c =
     (if c < 128 then (48 \<le> c \<and> c \<le> 57) \<or> (65 \<le> c \<and> c \<le> 90) \<or> (97 \<le> c \<and> c \<le> 122)
      else uc_isalnum u c)"

definition ascii_lower :: "nat \<Rightarrow> nat" where
  "ascii_lower c = (if 65 \<le> c \<and> c \<le> 90 then c + 32 else c)"

text \<open>\<^verbatim>\<open>str.strip()\<close>: leading and trailing whitespace removed.\<close>

definition strip :: "ucd \<Rightarrow> pystr \<Rightarrow> pystr" where
  "strip u s = rev (dropWhile (isspace u) (rev (dropWhile (isspace u) s)))"

text \<open>\<^verbatim>\<open>str.split('\n')\<close>: the pieces between line feeds; never the empty list.\<close>

fun split_nl :: "pystr \<Rightarrow> pystr list" where
  "split_nl [] = [[]]"
| "split_nl (c # cs) =
     (if c = NL then [] # split_nl cs
      else (case split_nl cs of [] \<Rightarrow> [[c]] | l # ls \<Rightarrow> (c # l) # ls))"

section \<open>The regular expressions of \<^verbatim>\<open>find_chapters\<close>\<close>

text \<open>
  The two patterns use single characters and character classes, \<^verbatim>\<open>+\<close> and \<^verbatim>\<open>*\<close>
  on a class, sequence, alternation, one optional group and the anchors \<^verbatim>\<open>^\<close> and
  \<^verbatim>\<open>$\<close> (multi-line). A position is the character before it (if any) and the rest
  of the subject; \<open>rx_run\<close> lists every position at which a match of the expression that
  starts at the given position can end, as a backtracking matcher explores them.
  \<^verbatim>\<open>pattern.match(s)\<close> is not \<^verbatim>\<open>None\<close> when some match starts at the beginning.
\<close>

type_synonym cclass = "nat \<Rightarrow> bool"

datatype rx =
    Cls cclass
  | Plus cclass
  | Star cclass
  | Seq rx rx
  | Alt rx rx
  | Opt rx
  | Bol
  | Eol

type_synonym pos = "nat option \<times> pystr"

fun many :: "cclass \<Rightarrow> nat option \<Rightarrow> pystr \<Rightarrow> pos list" where
  "many P prev [] = [(prev, [])]"
| "many P prev (c # cs) = (prev, c # cs) # (if P c then many P (Some c) cs else [])"

fun rx_run :: "rx \<Rightarrow> pos \<Rightarrow> pos list" where
  "rx_run (Cls P) (prev, s) = (case s of [] \<Rightarrow> [] | c # cs \<Rightarrow> if P c then [(Some c, cs)] else [])"
| "rx_run (Plus P) (prev, s) = (case s of [] \<Rightarrow> [] | c # cs \<Rightarrow> if P c then many P (Some c) cs else [])"
| "rx_run (Star P) (prev, s) = many P prev s"
| "rx_run (Seq a b) p = concat (map (rx_run b) (rx_run a p))"
| "rx_run (Alt a b) p = rx_run a p @ rx_run b p"
| "rx_run (Opt a) p = rx_run a p @ [p]"
| "rx_run Bol (prev, s) = (if prev = None \<or> prev = Some NL then [(prev, s)] else [])"
| "rx_run Eol (prev, s) = (case s of [] \<Rightarrow> [(prev, s)] | c # cs \<Rightarrow> if c = NL then [(prev, s)] else [])"

definition re_match :: "rx \<Rightarrow> pystr \<Rightarrow> bool" where
  "re_match p s = (rx_run p (None, s) \<noteq> [])"

text \<open>Atoms under \<^verbatim>\<open>re.IGNORECASE\<close>; \<open>c\<close> is a character of the pattern.\<close>

definition ci :: "ucd \<Rightarrow> nat \<Rightarrow> cclass" where
  "ci u c = (\<lambda>x. if x < 128 then ascii_lower x = ascii_lower c else uc_ci_match u x c)"

definition ci_set :: "ucd \<Rightarrow> pystr \<Rightarrow> cclass" where
  "ci_set u cs = (\<lambda>x. list_ex (\<lambda>c. ci u c x) cs)"

fun lit :: "ucd \<Rightarrow> pystr \<Rightarrow> rx \<Rightarrow> rx" where
  "lit u [] r = r"
| "lit u (c # cs) r = Seq (Cls (ci u c)) (lit u cs r)"

definition space :: "ucd \<Rightarrow> cclass" where
  "space u = isspace u"

definition digit :: "ucd \<Rightarrow> cclass" where
  "digit u = isdecimal u"

definition word :: "ucd \<Rightarrow> cclass" where
  "word u = (\<lambda>x. isalnum u x \<or> x = 95)"

definition dot :: cclass where
  "dot = (\<lambda>x. x \<noteq> NL)"

definition roman :: "ucd \<Rightarrow> cclass" where
  "roman u = ci_set u (py ''IVXLCDM'')"

definition letter :: "ucd \<Rightarrow> cclass" where
  "letter u = ci_set u (py ''ABCDEFGHIJKLMNOPQRSTUVWXYZabcdefghijklmnopqrstuvwxyz'')"

text \<open>
  \<^verbatim>\<open>^(Chapter\s+\d+|CHAPTER\s+\d+|Chapter\s+[IVXLCDM]+|Chapter\s+[A-Za-z]+|(\d+\.\s+)?\w+\s+.*)\s*$\<close>
\<close>

definition chapter_pattern :: "ucd \<Rightarrow> rx" where
  "chapter_pattern u =
     Seq Bol (Seq
       (Alt (lit u (py ''Chapter'') (Seq (Plus (space u)) (Plus (digit u))))
       (Alt (lit u (py ''CHAPTER'') (Seq (Plus (space u)) (Plus (digit u))))
       (Alt (lit u (py ''Chapter'') (Seq (Plus (space u)) (Plus (roman u))))
       (Alt (lit u (py ''Chapter'') (Seq (Plus (space u)) (Plus (letter u))))
            (Seq (Opt (Seq (Plus (digit u)) (Seq (Cls (ci u 46)) (Plus (space u)))))
                 (Seq (Plus (word u)) (Seq (Plus (space u)) (Star dot))))))))
       (Seq (Star (space u)) Eol))"

text \<open>\<^verbatim>\<open>^(Part\s+\d+|PART\s+\d+|Part\s+[IVXLCDM]+|Part\s+[A-Za-z]+)\s*$\<close>\<close>

definition part_pattern :: "ucd \<Rightarrow> rx" where
  "part_pattern u =
     Seq Bol (Seq
       (Alt (lit u (py ''Part'') (Seq (Plus (space u)) (Plus (digit u))))
       (Alt (lit u (py ''PART'') (Seq (Plus (space u)) (Plus (digit u))))
       (Alt (lit u (py ''Part'') (Seq (Plus (space u)) (Plus (roman u))))
            (lit u (py ''Part'') (Seq (Plus (space u)) (Plus (letter u)))))))
       (Seq (Star (space u)) Eol))"

definition chapter_patterns :: "ucd \<Rightarrow> rx list" where
  "chapter_patterns u = [chapter_pattern u, part_pattern u]"

section \<open>Locating chapters: \<^verbatim>\<open>find_chapters\<close>\<close>

record Chapter =
  title :: pystr
  start_line :: int
  end_line :: int

text \<open>
  The state of the scan: \<^verbatim>\<open>chapters\<close>, \<^verbatim>\<open>current_chapter_title\<close> and
  \<^verbatim>\<open>current_chapter_start_index\<close>. A string is true in a condition when it is not empty.
\<close>

type_synonym scan = "Chapter list \<times> pystr \<times> int"

text \<open>
  The inner loop over the patterns for line \<open>i\<close>: at the first pattern that matches the
  stripped line the current chapter is closed at \<open>i - 1\<close>, a new one is opened at \<open>i\<close>, and
  the loop is left (\<^verbatim>\<open>break\<close>).
\<close>

fun scan_patterns :: "ucd \<Rightarrow> rx list \<Rightarrow> int \<Rightarrow> pystr \<Rightarrow> scan \<Rightarrow> scan" where
  "scan_patterns u [] i line st = st"
| "scan_patterns u (p # ps) i line (chapters, cur_title, cur_start) =
     (if re_match p (strip u line) then
        ((if cur_title \<noteq> [] then
            chapters @ [\<lparr>title = strip u cur_title, start_line = cur_start, end_line = i - 1\<rparr>]
          else chapters),
         strip u line, i)
      else scan_patterns u ps i line (chapters, cur_title, cur_start))"

text \<open>The outer loop, \<^verbatim>\<open>for i, line in enumerate(lines)\<close>.\<close>

fun scan_lines :: "ucd \<Rightarrow> int \<Rightarrow> pystr list \<Rightarrow> scan \<Rightarrow> scan" where
  "scan_lines u i [] st = st"
| "scan_lines u i (line # rest) st =
     scan_lines u (i + 1) rest (scan_patterns u (chapter_patterns u) i line st)"

definition close_last :: "ucd \<Rightarrow> pystr list \<Rightarrow> scan \<Rightarrow> Chapter list" where
  "close_last u lines st =
     (case st of (chapters, cur_title, cur_start) \<Rightarrow>
        if cur_title \<noteq> [] then
          chapters @ [\<lparr>title = strip u cur_title, start_line = cur_start,
                        end_line = int (length lines) - 1\<rparr>]
        else chapters)"

definition find_chapters :: "ucd \<Rightarrow> pystr \<Rightarrow> Chapter list" where
  "find_chapters u text_content =
     (let lines = split_nl text_content;
          chapters = close_last u lines (scan_lines u 0 lines ([], py ''Introduction/Beginning'', 0))
      in filter (\<lambda>c. end_line c \<ge> start_line c) chapters)"

text \<open>Proof devices for the scan: the line is a heading, the chapters follow each other
  from \<open>lo\<close> up to (not including) \<open>nxt\<close>, and the invariant of the outer loop before
  line \<open>i\<close>.\<close>

definition is_heading :: "ucd \<Rightarrow> pystr \<Rightarrow> bool" where
  "is_heading u line = list_ex (\<lambda>p. re_match p (strip u line)) (chapter_patterns u)"

fun chained :: "int \<Rightarrow> Chapter list \<Rightarrow> int \<Rightarrow> bool" where
  "chained lo [] nxt = (lo = nxt)"
| "chained lo (c # cs) nxt = (start_line c = lo \<and> chained (end_line c + 1) cs nxt)"

definition scan_inv :: "int \<Rightarrow> scan \<Rightarrow> bool" where
  "scan_inv i st =
     (case st of (chapters, cur_title, cur_start) \<Rightarrow>
        cur_title \<noteq> [] \<and> chained 0 chapters cur_start \<and>
        list_all (\<lambda>c. start_line c \<le> end_line c + 1) chapters \<and>
        0 \<le> i \<and> cur_start \<le> i \<and> (i = 0 \<or> cur_start < i))"

section \<open>The AI gateway\<close>

subsection \<open>Values, exceptions and what the caller can observe\<close>

text \<open>
  The values \<^verbatim>\<open>json.loads\<close> builds and the functions return: \<^verbatim>\<open>None\<close>, booleans,
  integers, strings, lists and dictionaries (in insertion order).
\<close>

datatype py_value =
    PNone
  | PBool bool
  | PInt int
  | PStr pystr
  | PList "py_value list"
  | PDict "(pystr \<times> py_value) list"

text \<open>The truth value of an object in a condition (\<^verbatim>\<open>if schema:\<close>, \<^verbatim>\<open>if not text_segment:\<close>).\<close>

fun truthy :: "py_value \<Rightarrow> bool" where
  "truthy PNone = False"
| "truthy (PBool b) = b"
| "truthy (PInt n) = (n \<noteq> 0)"
| "truthy (PStr s) = (s \<noteq> [])"
| "truthy (PList xs) = (xs \<noteq> [])"
| "truthy (PDict kvs) = (kvs \<noteq> [])"

text \<open>
  An exception is its class and its message (\<^verbatim>\<open>str(e)\<close>). \<^verbatim>\<open>CancelledError\<close> and
  \<^verbatim>\<open>KeyboardInterrupt\<close> derive from \<^verbatim>\<open>BaseException\<close> only, so \<^verbatim>\<open>except Exception\<close>
  lets them through.
\<close>

datatype exc_class =
    AttributeError
  | TypeError
  | ValueError
  | OSError
  | CancelledError
  | KeyboardInterrupt

datatype py_exc = Exc exc_class pystr

fun is_Exception :: "py_exc \<Rightarrow> bool" where
  "is_Exception (Exc c m) = (c \<noteq> CancelledError \<and> c \<noteq> KeyboardInterrupt)"

fun exc_str :: "py_exc \<Rightarrow> pystr" where
  "exc_str (Exc c m) = m"

text \<open>The request: \<^verbatim>\<open>{"role": "user", "parts": [{"text": prompt}]}\<close> in \<^verbatim>\<open>contents\<close>,
  and \<^verbatim>\<open>generationConfig\<close> when a schema is given.\<close>

record message =
  msg_role :: pystr
  msg_parts :: "pystr list"

record generation_config =
  responseMimeType :: pystr
  responseSchema :: py_value

record payload =
  contents :: "message list"
  generationConfig :: "generation_config option"

record request =
  req_method :: pystr
  req_headers :: "(pystr \<times> pystr) list"
  req_body :: payload

text \<open>The reply envelope the code reads:
  \<^verbatim>\<open>result.candidates[0].content.parts[0].text\<close>. \<open>None\<close> is a field that holds
  \<^verbatim>\<open>None\<close>.\<close>

record part =
  part_text :: pystr

record content =
  content_parts :: "part list"

record candidate =
  cand_content :: "content option"

record result =
  candidates :: "candidate list option"

text \<open>
  What lies outside the program: the awaited \<^verbatim>\<open>fetch\<close> (an exception, or a response
  whose awaited \<^verbatim>\<open>json()\<close> is an exception or a result), \<^verbatim>\<open>json.loads\<close>, and how a
  result prints.
\<close>

type_synonym response = "py_exc + result"

record env =
  fetch :: "pystr \<Rightarrow> request \<Rightarrow> py_exc + response"
  json_loads :: "pystr \<Rightarrow> py_exc + py_value"
  show_result :: "result \<Rightarrow> pystr"

text \<open>What a run leaves behind, in order: a spinner shown, a call of \<^verbatim>\<open>call_gemini_api\<close>
  with its arguments, a request put on the network, an \<^verbatim>\<open>st.error\<close> notification, a line
  printed.\<close>

datatype event =
    Spinner pystr
  | GeminiCall pystr "py_value option"
  | Fetch pystr request
  | StError pystr
  | Print pystr

type_synonym 'a run = "(py_exc + 'a) \<times> event list"

fun gemini_prompts :: "event list \<Rightarrow> pystr list" where
  "gemini_prompts [] = []"
| "gemini_prompts (GeminiCall p s # evs) = p # gemini_prompts evs"
| "gemini_prompts (e # evs) = gemini_prompts evs"

fun fetches :: "event list \<Rightarrow> request list" where
  "fetches [] = []"
| "fetches (Fetch url r # evs) = r # fetches evs"
| "fetches (e # evs) = fetches evs"

fun notifications :: "event list \<Rightarrow> pystr list" where
  "notifications [] = []"
| "notifications (StError m # evs) = m # notifications evs"
| "notifications (e # evs) = notifications evs"

subsection \<open>Method calls on a list\<close>

text \<open>
  The attributes of a \<^verbatim>\<open>list\<close> object that are methods. A call of any other name raises
  \<^verbatim>\<open>AttributeError: 'list' object has no attribute '...'\<close>. Of the methods that exist only
  \<^verbatim>\<open>append\<close> is given its effect; the program calls no other one.
\<close>

definition list_attrs :: "string list" where
  "list_attrs = [''append'', ''clear'', ''copy'', ''count'', ''extend'', ''index'',
     ''insert'', ''pop'', ''remove'', ''reverse'', ''sort'']"

definition no_attribute :: "string \<Rightarrow> py_exc" where
  "no_attribute name =
     Exc AttributeError ([39] @ py ''list'' @ [39] @ py '' object has no attribute '' @ [39] @ py name @ [39])"

definition list_call :: "string \<Rightarrow> 'a list \<Rightarrow> 'a \<Rightarrow> py_exc + 'a list" where
  "list_call name xs x =
     (if name \<notin> set list_attrs then Inl (no_attribute name)
      else if name = ''append'' then Inr (xs @ [x])
      else Inl (Exc TypeError []))"

subsection \<open>\<^verbatim>\<open>call_gemini_api\<close>\<close>

definition apiKey :: pystr where
  "apiKey = []"

definition apiUrl :: pystr where
  "apiUrl = py ''https://generativelanguage.googleapis.com/v1beta/models/gemini-2.0-flash:generateContent?key='' @ apiKey"

definition schema_given :: "py_value option \<Rightarrow> bool" where
  "schema_given schema = (case schema of None \<Rightarrow> False | Some v \<Rightarrow> truthy v)"

definition build_payload :: "message list \<Rightarrow> py_value option \<Rightarrow> payload" where
  "build_payload chatHistory schema =
     \<lparr>contents = chatHistory,
      generationConfig =
        (case schema of
           None \<Rightarrow> None
         | Some v \<Rightarrow>
             if truthy v then Some \<lparr>responseMimeType = py ''application/json'', responseSchema = v\<rparr>
             else None)\<rparr>"

text \<open>The condition on the envelope, and the text it guards.\<close>

definition valid_envelope :: "result \<Rightarrow> bool" where
  "valid_envelope r =
     (case candidates r of
        None \<Rightarrow> False
      | Some [] \<Rightarrow> False
      | Some (c # cs) \<Rightarrow>
          (case cand_content c of None \<Rightarrow> False | Some ct \<Rightarrow> content_parts ct \<noteq> []))"

definition text_response :: "result \<Rightarrow> pystr" where
  "text_response r =
     (case candidates r of
        Some (c # cs) \<Rightarrow>
          (case cand_content c of
             Some ct \<Rightarrow> (case content_parts ct of p # ps \<Rightarrow> part_text p | [] \<Rightarrow> [])
           | None \<Rightarrow> [])
      | _ \<Rightarrow> [])"

text \<open>The handler \<^verbatim>\<open>except Exception as e\<close>: a notification and \<^verbatim>\<open>None\<close>; an exception
  that is no \<^verbatim>\<open>Exception\<close> goes on to the caller.\<close>

definition except_Exception :: "py_exc \<Rightarrow> event list \<Rightarrow> py_value run" where
  "except_Exception e evs =
     (if is_Exception e then
        (Inr PNone, evs @ [StError (py ''An error occurred while calling the AI model: '' @ exc_str e)])
      else (Inl e, evs))"

text \<open>The \<^verbatim>\<open>try\<close> block, from the request to the return.\<close>

definition gemini_try :: "env \<Rightarrow> payload \<Rightarrow> py_value option \<Rightarrow> py_value run" where
  "gemini_try ev pl schema =
     (let req = \<lparr>req_method = py ''POST'',
                 req_headers = [(py ''Content-Type'', py ''application/json'')],
                 req_body = pl\<rparr>;
          sent = [Fetch apiUrl req]
      in case fetch ev apiUrl req of
           Inl e \<Rightarrow> except_Exception e sent
         | Inr response \<Rightarrow>
             (case response of
                Inl e \<Rightarrow> except_Exception e sent
              | Inr r \<Rightarrow>
                  if valid_envelope r then
                    (if schema_given schema then
                       (case json_loads ev (text_response r) of
                          Inl e \<Rightarrow> except_Exception e sent
                        | Inr v \<Rightarrow> (Inr v, sent))
                     else (Inr (PStr (text_response r)), sent))
                  else
                    (Inr PNone,
                     sent @ [StError (py ''Failed to get a valid response from the AI model. Please try again.''),
                             Print (py ''AI response error: '' @ show_result ev r)])))"

text \<open>
  The function: \<^verbatim>\<open>chatHistory = []\<close>, then \<^verbatim>\<open>chatHistory.push({...})\<close>, then the payload
  and the \<^verbatim>\<open>try\<close> block. The call of \<^verbatim>\<open>push\<close> stands before the \<^verbatim>\<open>try\<close>: what it
  raises reaches the caller.
\<close>

definition call_gemini_api :: "env \<Rightarrow> pystr \<Rightarrow> py_value option \<Rightarrow> py_value run" where
  "call_gemini_api ev prompt schema =
     (case list_call ''push'' [] \<lparr>msg_role = py ''user'', msg_parts = [prompt]\<rparr> of
        Inl e \<Rightarrow> (Inl e, [GeminiCall prompt schema])
      | Inr chatHistory \<Rightarrow>
          (case gemini_try ev (build_payload chatHistory schema) schema of
             (r, evs) \<Rightarrow> (r, GeminiCall prompt schema # evs)))"

subsection \<open>\<^verbatim>\<open>summarize_book\<close>\<close>

text \<open>\<^verbatim>\<open>str\<close> of an integer, for the f-string.\<close>

fun digits :: "nat \<Rightarrow> pystr" where
  "digits n = (if n < 10 then [48 + n] else digits (n div 10) @ [48 + n mod 10])"

definition str_int :: "int \<Rightarrow> pystr" where
  "str_int k = (if k < 0 then 45 # digits (nat (- k)) else digits (nat k))"

text \<open>
  \<open>percent\<close> is the value of \<^verbatim>\<open>int(summary_length_ratio*100)\<close>, a floating-point product
  truncated: it is taken as it comes out. The text enters the prompt as
  \<^verbatim>\<open>text_content[:8000]\<close>.
\<close>

definition summary_intro :: "int \<Rightarrow> pystr" where
  "summary_intro percent =
     py ''Please summarize the following book text in a concise manner, aiming for about '' @
     str_int percent @
     py ''% of the original length. Focus on the main plot, key characters, and significant events:'' @
     [NL, NL]"

definition summarize_book :: "env \<Rightarrow> pystr \<Rightarrow> int \<Rightarrow> py_value run" where
  "summarize_book ev text_content percent =
     (let prompt = summary_intro percent @ take 8000 text_content
      in case call_gemini_api ev prompt None of
           (summary, evs) \<Rightarrow> (summary, Spinner (py ''Generating summary...'') # evs))"

subsection \<open>\<^verbatim>\<open>generate_book_quiz\<close>\<close>

definition quiz_schema :: py_value where
  "quiz_schema =
     PDict [(py ''type'', PStr (py ''ARRAY'')),
            (py ''items'', PDict
               [(py ''type'', PStr (py ''OBJECT'')),
                (py ''properties'', PDict
                   [(py ''question'', PDict [(py ''type'', PStr (py ''STRING''))]),
                    (py ''options'', PDict
                       [(py ''type'', PStr (py ''ARRAY'')),
                        (py ''items'', PDict [(py ''type'', PStr (py ''STRING''))])]),
                    (py ''correct_answer'', PDict [(py ''type'', PStr (py ''STRING''))])]),
                (py ''required'', PList
                   [PStr (py ''question''), PStr (py ''options''), PStr (py ''correct_answer'')])])]"

text \<open>The triple-quoted f-string around \<^verbatim>\<open>{input_text_for_quiz}\<close>, line breaks and
  indentation as in the source.\<close>

definition quiz_intro :: pystr where
  "quiz_intro =
     py ''Generate one multiple-choice question from the following text.'' @ [NL] @
     py ''    The question should have four options, and one correct answer.'' @ [NL] @
     py ''    The correct answer must be one of the provided options.'' @ [NL] @
     [NL] @
     py ''    Text:'' @ [NL] @
     py ''    ''"

definition quiz_outro :: pystr where
  "quiz_outro = [NL] @ py ''    ''"

definition generate_book_quiz :: "env \<Rightarrow> pystr \<Rightarrow> py_value run" where
  "generate_book_quiz ev text_segment =
     (if \<not> truthy (PStr text_segment) then
        (Inr (PDict [(py ''error'', PStr (py ''Please provide text to generate a quiz.''))]), [])
      else
        (let input_text_for_quiz = take 2000 text_segment;
             prompt = quiz_intro @ input_text_for_quiz @ quiz_outro
         in case call_gemini_api ev prompt (Some quiz_schema) of
              (quiz_data, evs) \<Rightarrow> (quiz_data, Spinner (py ''Generating quiz question...'') # evs)))"

text \<open>The invariant of a quiz question as the data model states it: a dictionary whose
  \<^verbatim>\<open>options\<close> are four and whose \<^verbatim>\<open>correct_answer\<close> is exactly one of them.\<close>

definition quiz_question_ok :: "py_value \<Rightarrow> bool" where
  "quiz_question_ok q =
     (case q of
        PDict kvs \<Rightarrow>
          (case (map_of kvs (py ''options''), map_of kvs (py ''correct_answer'')) of
             (Some (PList opts), Some ans) \<Rightarrow> length opts = 4 \<and> count_list opts ans = 1
           | _ \<Rightarrow> False)
      | _ \<Rightarrow> False)"

text \<open>A service that answers every request with one candidate holding the given text, and a
  \<^verbatim>\<open>json.loads\<close> that reads every text as the given value.\<close>

definition replying :: "pystr \<Rightarrow> py_value \<Rightarrow> env" where
  "replying reply parsed =
     \<lparr>fetch = (\<lambda>url req. Inr (Inr \<lparr>candidates =
          Some [\<lparr>cand_content = Some \<lparr>content_parts = [\<lparr>part_text = reply\<rparr>]\<rparr>\<rparr>]\<rparr>)),
      json_loads = (\<lambda>s. Inr parsed),
      show_result = (\<lambda>r. [])\<rparr>"

section \<open>Properties of \<^verbatim>\<open>find_chapters\<close>\<close>

lemmas rx_defs = re_match_def chapter_pattern_def part_pattern_def chapter_patterns_def py_def
  ci_def ci_set_def ascii_lower_def space_def digit_def word_def dot_def roman_def letter_def
  isspace_def isdecimal_def isalnum_def NL_def strip_def

subsection \<open>The scan\<close>

lemma no_match_empty: "p \<in> set (chapter_patterns u) \<Longrightarrow> \<not> re_match p []"
  by (auto simp add: rx_defs)

lemma strip_sentinel: "strip u (py ''Introduction/Beginning'') = py ''Introduction/Beginning''"
  by (simp add: rx_defs)

lemma split_nl_nonempty: "split_nl s \<noteq> []"
  by (induction s) (auto split: list.splits)

lemma split_nl_no_newline: "l \<in> set (split_nl s) \<Longrightarrow> NL \<notin> set l"
  by (induction s arbitrary: l) (auto split: if_splits list.splits)

lemma scan_patterns_cases:
  "scan_patterns u ps i line (chs, t, s) =
     (if list_ex (\<lambda>p. re_match p (strip u line)) ps then
        ((if t \<noteq> [] then chs @ [\<lparr>title = strip u t, start_line = s, end_line = i - 1\<rparr>] else chs),
         strip u line, i)
      else (chs, t, s))"
  by (induction ps) auto

lemma scan_line_step:
  "scan_patterns u (chapter_patterns u) i line (chs, t, s) =
     (if is_heading u line then
        ((if t \<noteq> [] then chs @ [\<lparr>title = strip u t, start_line = s, end_line = i - 1\<rparr>] else chs),
         strip u line, i)
      else (chs, t, s))"
  by (simp only: scan_patterns_cases is_heading_def)

text \<open>A line that matches is not blank, so the title of an open chapter is never empty and
  the test \<^verbatim>\<open>if current_chapter_title:\<close> never fails.\<close>

lemma heading_nonempty: "is_heading u line \<Longrightarrow> strip u line \<noteq> []"
  unfolding is_heading_def list_ex_iff using no_match_empty by metis

lemma chained_append:
  "chained lo (cs @ [c]) nxt \<longleftrightarrow> chained lo cs (start_line c) \<and> nxt = end_line c + 1"
  by (induction cs arbitrary: lo) auto

lemma scan_inv_step:
  assumes "scan_inv i st"
  shows "scan_inv (i + 1) (scan_patterns u (chapter_patterns u) i line st)"
proof -
  obtain chs t s where st: "st = (chs, t, s)" by (cases st) auto
  show ?thesis
  proof (cases "is_heading u line")
    case True
    with assms st heading_nonempty[OF True] show ?thesis
      by (auto simp: scan_inv_def scan_line_step chained_append)
  next
    case False
    with assms st show ?thesis
      by (auto simp: scan_inv_def scan_line_step)
  qed
qed

lemma scan_inv_lines:
  "scan_inv i st \<Longrightarrow> scan_inv (i + int (length ls)) (scan_lines u i ls st)"
proof (induction ls arbitrary: i st)
  case Nil
  then show ?case by simp
next
  case (Cons l ls)
  from Cons.IH[OF scan_inv_step[OF Cons.prems, of u l]]
  show ?case by (simp add: algebra_simps)
qed

lemma scan_inv_init: "scan_inv 0 ([], py ''Introduction/Beginning'', 0)"
  by (simp add: scan_inv_def py_def)

text \<open>A chapter the filter drops is an empty one (its end is one before its start), so the
  chapters that stay still follow each other.\<close>

lemma chained_filter:
  "chained lo cs nxt \<Longrightarrow> list_all (\<lambda>c. start_line c \<le> end_line c + 1) cs \<Longrightarrow>
   chained lo (filter (\<lambda>c. end_line c \<ge> start_line c) cs) nxt"
proof (induction cs arbitrary: lo)
  case Nil
  then show ?case by simp
next
  case (Cons c cs)
  show ?case
  proof (cases "end_line c \<ge> start_line c")
    case True
    with Cons show ?thesis by simp
  next
    case False
    with Cons.prems have "end_line c + 1 = lo" by simp
    with Cons False show ?thesis by simp
  qed
qed

lemma chained_props:
  "chained lo cs nxt \<Longrightarrow> cs \<noteq> [] \<Longrightarrow>
     start_line (hd cs) = lo \<and> end_line (last cs) + 1 = nxt \<and>
     (\<forall>k. Suc k < length cs \<longrightarrow> start_line (cs ! Suc k) = end_line (cs ! k) + 1)"
proof (induction cs arbitrary: lo)
  case Nil
  then show ?case by simp
next
  case (Cons c cs)
  show ?case
  proof (cases cs)
    case Nil
    with Cons.prems show ?thesis by simp
  next
    case (Cons d ds)
    with Cons.prems Cons.IH[of "end_line c + 1"]
    have ih: "start_line (hd cs) = end_line c + 1" "end_line (last cs) + 1 = nxt"
      "\<forall>k. Suc k < length cs \<longrightarrow> start_line (cs ! Suc k) = end_line (cs ! k) + 1"
      by auto
    have "start_line ((c # cs) ! Suc k) = end_line ((c # cs) ! k) + 1"
      if "Suc k < length (c # cs)" for k
    proof (cases k)
      case 0
      with ih(1) Cons show ?thesis by simp
    next
      case (Suc j)
      with that ih(3) show ?thesis by simp
    qed
    with Cons.prems ih(2) Cons show ?thesis by simp
  qed
qed

text \<open>The result is what the filter keeps of the closed chapters, followed by the chapter
  closed after the loop, which the filter always keeps.\<close>

lemma find_chapters_shape:
  "\<exists>chs t s. find_chapters u tc =
      filter (\<lambda>c. end_line c \<ge> start_line c) chs @
        [\<lparr>title = t, start_line = s, end_line = int (length (split_nl tc)) - 1\<rparr>] \<and>
      chained 0 chs s \<and> list_all (\<lambda>c. start_line c \<le> end_line c + 1) chs \<and>
      s \<le> int (length (split_nl tc)) - 1"
proof -
  let ?ls = "split_nl tc"
  obtain chs t s where r: "scan_lines u 0 ?ls ([], py ''Introduction/Beginning'', 0) = (chs, t, s)"
    by (metis prod_cases3)
  have "scan_inv (0 + int (length ?ls)) (scan_lines u 0 ?ls ([], py ''Introduction/Beginning'', 0))"
    by (rule scan_inv_lines[OF scan_inv_init])
  with r have inv: "t \<noteq> []" "chained 0 chs s" "list_all (\<lambda>c. start_line c \<le> end_line c + 1) chs"
     "s \<le> int (length ?ls) - 1"
    using split_nl_nonempty[of tc] by (auto simp: scan_inv_def)
  have "find_chapters u tc = filter (\<lambda>c. end_line c \<ge> start_line c) chs @
        [\<lparr>title = strip u t, start_line = s, end_line = int (length ?ls) - 1\<rparr>]"
    using r inv by (simp add: find_chapters_def close_last_def Let_def)
  with inv show ?thesis by blast
qed

subsection \<open>Concrete texts\<close>

text \<open>
  C5. For the text \<^verbatim>\<open>"Chapter 1\nfoo\nChapter 2\nbar"\<close> the result is the two chapters
  \<open>Chapter 1\<close> on lines 0 to 1 and \<open>Chapter 2\<close> on lines 2 to 3, in that order, whatever
  the character tables say beyond ASCII.
\<close>

theorem find_chapters_two_chapters:
  "find_chapters u (py ''Chapter 1'' @ [NL] @ py ''foo'' @ [NL] @ py ''Chapter 2'' @ [NL] @ py ''bar'') =
     [\<lparr>title = py ''Chapter 1'', start_line = 0, end_line = 1\<rparr>,
      \<lparr>title = py ''Chapter 2'', start_line = 2, end_line = 3\<rparr>]"
  by (simp add: find_chapters_def close_last_def rx_defs)

text \<open>
  C1. For the text \<^verbatim>\<open>"Chapter 1\nChapter 2\nbody"\<close> the code returns two chapters: the
  heading \<open>Chapter 1\<close>, followed at once by the next heading, stays in the result as the
  one-line chapter from line 0 to line 0 (its end is not below its start, so the filter keeps
  it), and \<open>Chapter 2\<close> follows on lines 1 to 2. Only the empty opening chapter, from line 0 to
  line -1, is dropped.
\<close>

theorem find_chapters_adjacent_headings:
  "find_chapters u (py ''Chapter 1'' @ [NL] @ py ''Chapter 2'' @ [NL] @ py ''body'') =
     [\<lparr>title = py ''Chapter 1'', start_line = 0, end_line = 0\<rparr>,
      \<lparr>title = py ''Chapter 2'', start_line = 1, end_line = 2\<rparr>]"
  by (simp add: find_chapters_def close_last_def rx_defs)

subsection \<open>Every text\<close>

text \<open>
  C4. When no line of the text, stripped, matches either pattern, the result is exactly one
  chapter: its title is \<open>Introduction/Beginning\<close>, it starts at line 0 and it ends at the
  last line index.
\<close>

theorem find_chapters_no_headings:
  assumes "\<forall>line \<in> set (split_nl tc). \<forall>p \<in> set (chapter_patterns u). \<not> re_match p (strip u line)"
  shows "find_chapters u tc =
     [\<lparr>title = py ''Introduction/Beginning'', start_line = 0,
       end_line = int (length (split_nl tc)) - 1\<rparr>]"
proof -
  have keep: "scan_lines u i ls st = st"
    if "\<forall>line \<in> set ls. \<not> is_heading u line" for i ls st
    using that
  proof (induction ls arbitrary: i st)
    case Nil
    then show ?case by simp
  next
    case (Cons l ls)
    obtain chs t s where "st = (chs, t, s)" by (cases st) auto
    with Cons show ?case by (simp add: scan_line_step)
  qed
  from assms have "\<forall>line \<in> set (split_nl tc). \<not> is_heading u line"
    by (auto simp: is_heading_def list_ex_iff)
  from keep[OF this] split_nl_nonempty[of tc] show ?thesis
    by (simp add: find_chapters_def close_last_def Let_def strip_sentinel) (simp add: py_def)
qed

theorem find_chapters_no_headings_witness:
  "find_chapters ascii_only (py ''foo'' @ [NL] @ py ''bar'') =
     [\<lparr>title = py ''Introduction/Beginning'', start_line = 0, end_line = 1\<rparr>]"
proof -
  have h: "\<forall>line \<in> set (split_nl (py ''foo'' @ [NL] @ py ''bar'')).
             \<forall>p \<in> set (chapter_patterns ascii_only). \<not> re_match p (strip ascii_only line)"
    by code_simp
  have n: "int (length (split_nl (py ''foo'' @ [NL] @ py ''bar''))) - 1 = 1"
    by (simp add: py_def NL_def)
  from find_chapters_no_headings[OF h] show ?thesis
    by (simp only: n)
qed

text \<open>
  C9. Every chapter of the result ends at or after the line it starts at.
\<close>

theorem find_chapters_end_ge_start:
  "\<forall>c \<in> set (find_chapters u tc). end_line c \<ge> start_line c"
  by (simp add: find_chapters_def Let_def)

theorem find_chapters_end_ge_start_witness:
  "find_chapters ascii_only (py ''Chapter 1'' @ [NL] @ py ''foo'') \<noteq> [] \<and>
   list_all (\<lambda>c. end_line c \<ge> start_line c)
     (find_chapters ascii_only (py ''Chapter 1'' @ [NL] @ py ''foo''))"
proof -
  have "find_chapters ascii_only (py ''Chapter 1'' @ [NL] @ py ''foo'') \<noteq> []"
    by (simp add: find_chapters_def close_last_def rx_defs)
  with find_chapters_end_ge_start[of ascii_only "py ''Chapter 1'' @ [NL] @ py ''foo''"]
  show ?thesis by (simp only: list_all_iff simp_thms)
qed

text \<open>
  C10. For every text the result is not empty and its chapters tile the lines of the text:
  the first starts at line 0, each later one starts on the line after the end of the one
  before it, and the last ends at the last line index. The empty text has one line, so its
  result is not empty either.
\<close>

theorem find_chapters_partition:
  "find_chapters u tc \<noteq> [] \<and>
   start_line (hd (find_chapters u tc)) = 0 \<and>
   (\<forall>k. Suc k < length (find_chapters u tc) \<longrightarrow>
      start_line (find_chapters u tc ! Suc k) = end_line (find_chapters u tc ! k) + 1) \<and>
   end_line (last (find_chapters u tc)) = int (length (split_nl tc)) - 1"
proof -
  obtain chs t s where fc: "find_chapters u tc =
      filter (\<lambda>c. end_line c \<ge> start_line c) chs @
        [\<lparr>title = t, start_line = s, end_line = int (length (split_nl tc)) - 1\<rparr>]"
    and ch: "chained 0 chs s" and la: "list_all (\<lambda>c. start_line c \<le> end_line c + 1) chs"
    using find_chapters_shape by blast
  have "chained 0 (filter (\<lambda>c. end_line c \<ge> start_line c) chs) s"
    by (rule chained_filter[OF ch la])
  then have c: "chained 0 (find_chapters u tc) (int (length (split_nl tc)) - 1 + 1)"
    by (simp add: fc chained_append)
  have ne: "find_chapters u tc \<noteq> []" by (simp add: fc)
  from chained_props[OF c ne] ne show ?thesis by simp
qed

theorem find_chapters_partition_witness:
  "find_chapters ascii_only (py ''Part 1'' @ [NL] @ py ''Chapter 1'' @ [NL] @ py ''body'') \<noteq> [] \<and>
   start_line (hd (find_chapters ascii_only (py ''Part 1'' @ [NL] @ py ''Chapter 1'' @ [NL] @ py ''body''))) = 0 \<and>
   start_line (find_chapters ascii_only (py ''Part 1'' @ [NL] @ py ''Chapter 1'' @ [NL] @ py ''body'') ! Suc 0) =
     end_line (find_chapters ascii_only (py ''Part 1'' @ [NL] @ py ''Chapter 1'' @ [NL] @ py ''body'') ! 0) + 1 \<and>
   end_line (last (find_chapters ascii_only (py ''Part 1'' @ [NL] @ py ''Chapter 1'' @ [NL] @ py ''body''))) = 2"
proof -
  let ?tc = "py ''Part 1'' @ [NL] @ py ''Chapter 1'' @ [NL] @ py ''body''"
  have len: "Suc 0 < length (find_chapters ascii_only ?tc)"
    by (simp add: find_chapters_def close_last_def rx_defs)
  have ls: "int (length (split_nl ?tc)) - 1 = 2"
    by (simp add: py_def NL_def)
  from find_chapters_partition[of ascii_only ?tc] len ls show ?thesis
    by (simp only: simp_thms)
qed

section \<open>Properties of the AI gateway\<close>

subsection \<open>The call of \<^verbatim>\<open>push\<close>\<close>

text \<open>A list has no method \<^verbatim>\<open>push\<close>: the call raises \<^verbatim>\<open>AttributeError\<close>.\<close>

lemma list_call_push: "list_call ''push'' xs x = Inl (no_attribute ''push'')"
  by (simp add: list_call_def list_attrs_def)

subsection \<open>The \<^verbatim>\<open>try\<close> block on its own\<close>

text \<open>
  Once entered, the \<^verbatim>\<open>try\<close> block turns a failed request and a reply of the wrong
  shape into one notification and \<^verbatim>\<open>None\<close>, and hands a well-formed reply back as text
  or, with a schema, as what \<^verbatim>\<open>json.loads\<close> makes of it. Nothing in it looks at the
  parsed value.
\<close>

lemma gemini_try_transport_failure:
  assumes "fetch ev apiUrl \<lparr>req_method = py ''POST'',
              req_headers = [(py ''Content-Type'', py ''application/json'')], req_body = pl\<rparr> = Inl e"
    and "is_Exception e"
  shows "fst (gemini_try ev pl schema) = Inr PNone \<and>
         notifications (snd (gemini_try ev pl schema)) =
           [py ''An error occurred while calling the AI model: '' @ exc_str e]"
  using assms by (simp add: gemini_try_def except_Exception_def Let_def)

lemma gemini_try_bad_envelope:
  assumes "fetch ev apiUrl \<lparr>req_method = py ''POST'',
              req_headers = [(py ''Content-Type'', py ''application/json'')], req_body = pl\<rparr> = Inr (Inr r)"
    and "\<not> valid_envelope r"
  shows "fst (gemini_try ev pl schema) = Inr PNone \<and>
         notifications (snd (gemini_try ev pl schema)) =
           [py ''Failed to get a valid response from the AI model. Please try again.'']"
  using assms by (simp add: gemini_try_def Let_def)

lemma gemini_try_reply:
  assumes "fetch ev apiUrl \<lparr>req_method = py ''POST'',
              req_headers = [(py ''Content-Type'', py ''application/json'')], req_body = pl\<rparr> = Inr (Inr r)"
    and "valid_envelope r"
  shows "fst (gemini_try ev pl schema) =
           (if schema_given schema then
              (case json_loads ev (text_response r) of
                 Inr v \<Rightarrow> Inr v
               | Inl e \<Rightarrow> if is_Exception e then Inr PNone else Inl e)
            else Inr (PStr (text_response r)))"
  using assms by (simp add: gemini_try_def except_Exception_def Let_def split: sum.splits)

lemma gemini_try_unvalidated:
  "fst (gemini_try (replying r (PList [PDict [(py ''question'', PStr (py ''q'')),
          (py ''options'', PList [PStr (py ''a'')]), (py ''correct_answer'', PStr (py ''z''))]]))
        pl (Some quiz_schema)) =
     Inr (PList [PDict [(py ''question'', PStr (py ''q'')),
          (py ''options'', PList [PStr (py ''a'')]), (py ''correct_answer'', PStr (py ''z''))]]) \<and>
   \<not> quiz_question_ok (PDict [(py ''question'', PStr (py ''q'')),
          (py ''options'', PList [PStr (py ''a'')]), (py ''correct_answer'', PStr (py ''z''))])"
  by (simp add: gemini_try_def replying_def valid_envelope_def schema_given_def quiz_schema_def
      quiz_question_ok_def py_def Let_def)

subsection \<open>\<^verbatim>\<open>call_gemini_api\<close>\<close>

text \<open>
  C2. For every service, prompt and schema the call of \<^verbatim>\<open>call_gemini_api\<close> ends with
  \<^verbatim>\<open>AttributeError\<close> raised to its caller by \<^verbatim>\<open>chatHistory.push\<close>, before the
  \<^verbatim>\<open>try\<close> block: no request is made, no notification is shown and nothing is returned.
\<close>

theorem call_gemini_api_raises:
  "call_gemini_api ev prompt schema = (Inl (no_attribute ''push''), [GeminiCall prompt schema])"
  by (simp add: call_gemini_api_def list_call_push)

text \<open>
  C8. With a service whose reply is a well-formed envelope holding the text \<open>ok\<close>, the call
  without a schema raises \<^verbatim>\<open>AttributeError\<close> and does not return \<open>ok\<close>; with a schema
  and a reply that parses to the empty array it does not return that array either. The
  \<^verbatim>\<open>try\<close> block alone, given the payload, would return \<open>ok\<close>.
\<close>

theorem call_gemini_api_wellformed_reply:
  "call_gemini_api (replying (py ''ok'') PNone) (py ''hi'') None =
     (Inl (no_attribute ''push''), [GeminiCall (py ''hi'') None]) \<and>
   fst (call_gemini_api (replying (py ''ok'') PNone) (py ''hi'') None) \<noteq> Inr (PStr (py ''ok'')) \<and>
   fst (call_gemini_api (replying (py ''[]'') (PList [])) (py ''hi'') (Some quiz_schema)) \<noteq> Inr (PList []) \<and>
   fst (gemini_try (replying (py ''ok'') PNone)
          (build_payload [\<lparr>msg_role = py ''user'', msg_parts = [py ''hi'']\<rparr>] None) None) =
     Inr (PStr (py ''ok''))"
  by (simp add: call_gemini_api_def list_call_push gemini_try_def replying_def valid_envelope_def
      text_response_def schema_given_def Let_def)

subsection \<open>The two callers\<close>

text \<open>A quiz call never returns an array: with text it raises, without text it returns the
  error dictionary.\<close>

lemma generate_book_quiz_nonempty_raises:
  "tc \<noteq> [] \<Longrightarrow> fst (generate_book_quiz ev tc) = Inl (no_attribute ''push'')"
  by (simp add: generate_book_quiz_def call_gemini_api_def list_call_push Let_def)

lemma generate_book_quiz_no_list: "fst (generate_book_quiz ev tc) \<noteq> Inr (PList qs)"
  by (simp add: generate_book_quiz_def call_gemini_api_def list_call_push Let_def)

text \<open>
  C7. With the empty text \<^verbatim>\<open>generate_book_quiz\<close> returns the dictionary with the one
  key \<^verbatim>\<open>error\<close>, and the run leaves nothing behind: \<^verbatim>\<open>call_gemini_api\<close> is not called
  and no request is put on the network.
\<close>

theorem generate_book_quiz_empty:
  "generate_book_quiz ev [] =
     (Inr (PDict [(py ''error'', PStr (py ''Please provide text to generate a quiz.''))]), []) \<and>
   gemini_prompts (snd (generate_book_quiz ev [])) = [] \<and>
   fetches (snd (generate_book_quiz ev [])) = []"
  by (simp add: generate_book_quiz_def)

text \<open>
  C6. The one prompt \<^verbatim>\<open>summarize_book\<close> passes to \<^verbatim>\<open>call_gemini_api\<close> is its fixed
  introduction followed by the first 8000 characters of the text and nothing else of it; the
  prompt of \<^verbatim>\<open>generate_book_quiz\<close> (there is one when the text is not empty) is its fixed
  frame around the first 2000 characters of the text segment.
\<close>

theorem prompts_truncated:
  "gemini_prompts (snd (summarize_book ev tc percent)) = [summary_intro percent @ take 8000 tc] \<and>
   gemini_prompts (snd (generate_book_quiz ev tc)) =
     (if tc = [] then [] else [quiz_intro @ take 2000 tc @ quiz_outro]) \<and>
   length (take 8000 tc) \<le> 8000 \<and> length (take 2000 tc) \<le> 2000"
  by (simp add: summarize_book_def generate_book_quiz_def call_gemini_api_def list_call_push Let_def)

theorem prompts_truncated_witness:
  "gemini_prompts (snd (summarize_book (replying [] PNone) (replicate 8001 97) 30)) =
     [summary_intro 30 @ replicate 8000 97] \<and>
   gemini_prompts (snd (generate_book_quiz (replying [] PNone) (replicate 2001 97))) =
     [quiz_intro @ replicate 2000 97 @ quiz_outro]"
  using prompts_truncated[of "replying [] PNone" "replicate 8001 97" 30]
    prompts_truncated[of "replying [] PNone" "replicate 2001 97" 30]
  by simp

end
